theory Spec2Isabelle
  imports Main "HOL-Library.AList"
begin

section \<open>Strings\<close>

text \<open>
  A JavaScript string is modelled as a \<^typ>\<open>string\<close>: a list of code units, each below 256
  (the Latin-1 range). On that range the character classes of the source's regular
  expressions, \<open>trim\<close> and \<open>toLowerCase\<close> are as written below; code units above 255 are
  outside the model.
\<close>

definition LF :: char where
  "LF = CHR 0x0A"

definition CR :: char where
  "CR = CHR 0x0D"

text \<open>The class \<open>\s\<close> (white space and line terminators), which is also what \<open>trim\<close> strips.\<close>

definition is_space :: "char \<Rightarrow> bool" where
  "is_space c \<longleftrightarrow> c = CHR 0x09 \<or> c = CHR 0x0A \<or> c = CHR 0x0B \<or> c = CHR 0x0C
     \<or> c = CHR 0x0D \<or> c = CHR 0x20 \<or> c = CHR 0xA0"

text \<open>The class \<open>\d\<close>.\<close>

definition is_digit :: "char \<Rightarrow> bool" where
  "is_digit c \<longleftrightarrow> c \<in> set ''0123456789''"

text \<open>\<open>String.prototype.trim\<close>.\<close>

definition js_trim :: "string \<Rightarrow> string" where
  "js_trim s = rev (dropWhile is_space (rev (dropWhile is_space s)))"

text \<open>\<open>String.prototype.toLowerCase\<close> on code units below 256.\<close>

definition lower_char :: "char \<Rightarrow> char" where
  "lower_char c =
     (let n = (of_char c :: nat)
      in if (65 \<le> n \<and> n \<le> 90) \<or> (192 \<le> n \<and> n \<le> 214) \<or> (216 \<le> n \<and> n \<le> 222)
         then char_of (n + 32) else c)"

definition toLowerCase :: "string \<Rightarrow> string" where
  "toLowerCase s = map lower_char s"

text \<open>\<open>s.startsWith(p)\<close> and \<open>s.includes(p)\<close>.\<close>

definition startsWith :: "string \<Rightarrow> string \<Rightarrow> bool" where
  "startsWith s p \<longleftrightarrow> take (length p) s = p"

fun js_includes :: "string \<Rightarrow> string \<Rightarrow> bool" where
  "js_includes [] p = (p = [])"
| "js_includes (x # xs) p = (startsWith (x # xs) p \<or> js_includes xs p)"

text \<open>\<open>s.split(c)\<close> for a separator of one character: the pieces between the separators,
  empty pieces kept; the empty string gives one empty piece.\<close>

fun split_char :: "char \<Rightarrow> string \<Rightarrow> string \<Rightarrow> string list" where
  "split_char c cur [] = [rev cur]"
| "split_char c cur (x # xs) =
     (if x = c then rev cur # split_char c [] xs else split_char c (x # cur) xs)"

definition split_lines :: "string \<Rightarrow> string list" where
  "split_lines s = split_char LF [] s"

text \<open>\<open>s.split(/\s+/)\<close>: the pieces between the maximal runs of white space. A string that
  starts (ends) with white space gives an empty first (last) piece. The flag says that the
  last character read was white space.\<close>

fun split_ws_from :: "bool \<Rightarrow> string \<Rightarrow> string \<Rightarrow> string list" where
  "split_ws_from inws cur [] = [rev cur]"
| "split_ws_from inws cur (x # xs) =
     (if is_space x
      then (if inws then split_ws_from True cur xs else rev cur # split_ws_from True [] xs)
      else split_ws_from False (x # cur) xs)"

definition split_ws :: "string \<Rightarrow> string list" where
  "split_ws s = split_ws_from False [] s"

text \<open>\<open>xs.join(" ")\<close>.\<close>

fun join_sp :: "string list \<Rightarrow> string" where
  "join_sp [] = []"
| "join_sp [x] = x"
| "join_sp (x # y # ys) = x @ '' '' @ join_sp (y # ys)"


section \<open>Regular expressions\<close>

text \<open>
  The regular expressions of the source are sequences of literal characters, repeated
  character classes (greedy \<open>+\<close> and \<open>*\<close>, lazy \<open>*?\<close>), one capture group and the anchor
  \<open>$\<close>. They are matched as the JavaScript engine matches them, by backtracking: a greedy
  repetition tries the longest run first, a lazy one the shortest.
\<close>

datatype cclass = CSpace | CNotSpace | CDigit | CDot | CAny

fun in_class :: "cclass \<Rightarrow> char \<Rightarrow> bool" where
  "in_class CSpace c = is_space c"
| "in_class CNotSpace c = (\<not> is_space c)"
| "in_class CDigit c = is_digit c"
| "in_class CDot c = (c \<noteq> LF \<and> c \<noteq> CR)"
| "in_class CAny c = True"

datatype atom =
    RLit char
  | RPlus cclass
  | RStar cclass
  | RLazyStar cclass
  | ROpen
  | RClose
  | REnd

type_synonym regex = "atom list"

definition lit :: "string \<Rightarrow> regex" where
  "lit s = map RLit s"

text \<open>The state of a match attempt: whether the capture group is open, and what it has
  captured so far.\<close>

fun consume :: "char \<Rightarrow> bool \<times> string \<Rightarrow> bool \<times> string" where
  "consume x (r, cap) = (r, if r then cap @ [x] else cap)"

text \<open>\<open>rmatch p s st\<close> matches \<open>p\<close> at the start of \<open>s\<close>; the result is the text of the capture
  group and the input left after the match.\<close>

fun rmatch :: "regex \<Rightarrow> string \<Rightarrow> bool \<times> string \<Rightarrow> (string \<times> string) option" where
  "rmatch [] s st = Some (snd st, s)"
| "rmatch (ROpen # as) s st = rmatch as s (True, [])"
| "rmatch (RClose # as) s st = rmatch as s (False, snd st)"
| "rmatch (REnd # as) s st = (if s = [] then rmatch as s st else None)"
| "rmatch (RLit c # as) [] st = None"
| "rmatch (RLit c # as) (x # xs) st =
     (if x = c then rmatch as xs (consume x st) else None)"
| "rmatch (RPlus k # as) [] st = None"
| "rmatch (RPlus k # as) (x # xs) st =
     (if in_class k x then rmatch (RStar k # as) xs (consume x st) else None)"
| "rmatch (RStar k # as) [] st = rmatch as [] st"
| "rmatch (RStar k # as) (x # xs) st =
     (if in_class k x
      then (case rmatch (RStar k # as) xs (consume x st) of
              Some r \<Rightarrow> Some r
            | None \<Rightarrow> rmatch as (x # xs) st)
      else rmatch as (x # xs) st)"
| "rmatch (RLazyStar k # as) [] st = rmatch as [] st"
| "rmatch (RLazyStar k # as) (x # xs) st =
     (case rmatch as (x # xs) st of
        Some r \<Rightarrow> Some r
      | None \<Rightarrow> (if in_class k x then rmatch (RLazyStar k # as) xs (consume x st) else None))"

text \<open>\<open>s.match(p)\<close> without the global flag: the leftmost match. The result is the input
  before the match, the capture and the input after the match.\<close>

fun re_search :: "regex \<Rightarrow> string \<Rightarrow> string \<Rightarrow> (string \<times> string \<times> string) option" where
  "re_search p pre [] =
     (case rmatch p [] (False, []) of
        Some (cap, rest) \<Rightarrow> Some (rev pre, cap, rest)
      | None \<Rightarrow> None)"
| "re_search p pre (x # xs) =
     (case rmatch p (x # xs) (False, []) of
        Some (cap, rest) \<Rightarrow> Some (rev pre, cap, rest)
      | None \<Rightarrow> re_search p (x # pre) xs)"

definition re_match :: "string \<Rightarrow> regex \<Rightarrow> string option" where
  "re_match s p = (case re_search p [] s of Some (pre, cap, rest) \<Rightarrow> Some cap | None \<Rightarrow> None)"

text \<open>\<open>s.replace(p, "")\<close> for a regular expression without the global flag.\<close>

definition re_remove :: "string \<Rightarrow> regex \<Rightarrow> string" where
  "re_remove s p = (case re_search p [] s of Some (pre, cap, rest) \<Rightarrow> pre @ rest | None \<Rightarrow> s)"

section \<open>Directory inference from the command line\<close>

definition nuxtPatterns :: "regex list" where
  "nuxtPatterns =
     [ lit ''node'' @ [RPlus CSpace, ROpen, RPlus CNotSpace, RClose] @ lit ''/node_modules/''
         @ [RLazyStar CDot] @ lit ''nuxt'' @ [RLazyStar CDot, RPlus CSpace] @ lit ''dev'',
       lit ''node'' @ [RPlus CSpace, ROpen, RPlus CNotSpace, RLit CHR ''/'', RClose]
         @ lit ''.nuxt/dev'',
       lit ''npx'' @ [RPlus CSpace] @ lit ''nuxi'' @ [RLazyStar CDot, RPlus CSpace] @ lit ''-C''
         @ [RPlus CSpace, ROpen, RPlus CNotSpace, RClose],
       lit ''npm'' @ [RPlus CSpace] @ lit ''run'' @ [RPlus CSpace] @ lit ''dev'' @ [RLazyStar CDot]
         @ lit ''--prefix'' @ [RPlus CSpace, ROpen, RPlus CNotSpace, RClose] ]"

text \<open>The loop over the patterns: the first pattern that matches with a non-empty capture
  gives the directory, with one trailing slash removed, and ends the loop.\<close>

fun first_pattern :: "regex list \<Rightarrow> string \<Rightarrow> string option" where
  "first_pattern [] command = None"
| "first_pattern (pattern # ps) command =
     (case re_match command pattern of
        Some m1 \<Rightarrow> (if m1 \<noteq> [] then Some (re_remove m1 [RLit CHR ''/'', REnd])
                   else first_pattern ps command)
      | None \<Rightarrow> first_pattern ps command)"

definition cwd_from_command :: "string \<Rightarrow> string option" where
  "cwd_from_command command = first_pattern nuxtPatterns command"

section \<open>Data model\<close>

text \<open>What the source throws: a \<open>TypeError\<close> of the language, a \<open>SyntaxError\<close> of
  \<open>JSON.parse\<close>, or the error of a failed system call (a command that fails or times out, a
  file that cannot be read).\<close>

datatype exn = TypeError | SyntaxError | SystemError

text \<open>The values of the language, as far as a parsed manifest holds them. An object is the
  list of its own properties. Of a number only its being zero is used.\<close>

datatype jsval =
    JUndefined
  | JNull
  | JBool bool
  | JNum int
  | JStr string
  | JArr "jsval list"
  | JObj "(string \<times> jsval) list"

fun truthy :: "jsval \<Rightarrow> bool" where
  "truthy JUndefined = False"
| "truthy JNull = False"
| "truthy (JBool b) = b"
| "truthy (JNum n) = (n \<noteq> 0)"
| "truthy (JStr s) = (s \<noteq> [])"
| "truthy (JArr vs) = True"
| "truthy (JObj kvs) = True"

text \<open>Reading one of the properties \<open>name\<close>, \<open>version\<close>, \<open>repository\<close>, \<open>url\<close>: a
  \<open>TypeError\<close> on \<open>null\<close> and \<open>undefined\<close>, \<open>undefined\<close> where the value has no such
  property.\<close>

fun get_prop :: "jsval \<Rightarrow> string \<Rightarrow> exn + jsval" where
  "get_prop JUndefined k = Inl TypeError"
| "get_prop JNull k = Inl TypeError"
| "get_prop (JObj kvs) k = Inr (case map_of kvs k of Some v \<Rightarrow> v | None \<Rightarrow> JUndefined)"
| "get_prop v k = Inr JUndefined"

record ProjectInfo =
  name :: jsval
  version :: jsval
  repository :: jsval

text \<open>The result of \<open>getProjectInfo\<close>; \<open>None\<close> is \<open>undefined\<close>, and the empty object \<open>{}\<close> is
  the record with every field \<open>None\<close>.\<close>

record details =
  cwd :: "string option"
  projectInfo :: "ProjectInfo option"
  memory :: "string option"
  cpu :: "string option"

definition no_details :: details where
  "no_details = \<lparr>cwd = None, projectInfo = None, memory = None, cpu = None\<rparr>"

record NuxtProcess = details +
  pid :: string
  port :: string
  command :: string

text \<open>The system, as \<open>getProjectInfo\<close> sees it at one instant: \<open>execSync\<close> (the standard
  output of a shell command, or the error thrown when it fails or times out), \<open>existsSync\<close>,
  \<open>readFileSync\<close>, \<open>JSON.parse\<close> and \<open>path.join\<close>. The last two fields stand for the floating-point
  formatting of the sampled numbers: \<open>format_memory\<close> for
  \<open>Math.round(parseInt(t, 10) / 1024) + " MB"\<close> and \<open>format_cpu\<close> for
  \<open>parseFloat(t).toFixed(1) + "%"\<close>.\<close>

record os =
  execSync :: "string \<Rightarrow> exn + string"
  existsSync :: "string \<Rightarrow> bool"
  readFileSync :: "string \<Rightarrow> exn + string"
  json_parse :: "string \<Rightarrow> exn + jsval"
  path_join :: "string list \<Rightarrow> string"
  format_memory :: "string \<Rightarrow> string"
  format_cpu :: "string \<Rightarrow> string"

section \<open>The project resolver\<close>

text \<open>\<open>!cwd\<close>: the variable is \<open>undefined\<close> or the empty string.\<close>

fun falsy :: "string option \<Rightarrow> bool" where
  "falsy None = True"
| "falsy (Some s) = (s = [])"

text \<open>The fallback: the first line of the output of \<open>lsof\<close> that starts with \<open>n\<close>, without
  that letter. A failing command leaves the directory as it was.\<close>

fun first_n_line :: "string list \<Rightarrow> string option" where
  "first_n_line [] = None"
| "first_n_line (l # ls) = (if startsWith l ''n'' then Some (drop 1 l) else first_n_line ls)"

definition lsof_command :: "string \<Rightarrow> string" where
  "lsof_command p = ''lsof -a -p '' @ p @ '' -d cwd -Fn 2>/dev/null''"

definition cwd_from_lsof :: "os \<Rightarrow> string \<Rightarrow> string option" where
  "cwd_from_lsof env p =
     (case execSync env (lsof_command p) of
        Inl e \<Rightarrow> None
      | Inr out \<Rightarrow> first_n_line (split_lines (js_trim out)))"

definition resolve_cwd :: "os \<Rightarrow> string \<Rightarrow> string \<Rightarrow> string option" where
  "resolve_cwd env p c =
     (let cwd0 = cwd_from_command c
      in if falsy cwd0
         then (case cwd_from_lsof env p of Some d \<Rightarrow> Some d | None \<Rightarrow> cwd0)
         else cwd0)"

text \<open>The object built from the parsed manifest:
  \<open>{name: packageJson.name, version: packageJson.version,
     repository: packageJson.repository?.url || packageJson.repository}\<close>.\<close>

definition manifest_info :: "jsval \<Rightarrow> exn + ProjectInfo" where
  "manifest_info packageJson =
     (case get_prop packageJson ''name'' of
        Inl e \<Rightarrow> Inl e
      | Inr n \<Rightarrow>
     (case get_prop packageJson ''version'' of
        Inl e \<Rightarrow> Inl e
      | Inr v \<Rightarrow>
     (case get_prop packageJson ''repository'' of
        Inl e \<Rightarrow> Inl e
      | Inr r \<Rightarrow>
     (case (if r = JUndefined \<or> r = JNull then Inr JUndefined else get_prop r ''url'') of
        Inl e \<Rightarrow> Inl e
      | Inr u \<Rightarrow> Inr \<lparr>name = n, version = v, repository = (if truthy u then u else r)\<rparr>))))"

definition read_package_json :: "os \<Rightarrow> string \<Rightarrow> ProjectInfo option" where
  "read_package_json env dir =
     (let packageJsonPath = path_join env [dir, ''package.json'']
      in if existsSync env packageJsonPath
         then (case readFileSync env packageJsonPath of
                 Inl e \<Rightarrow> None
               | Inr txt \<Rightarrow>
                   (case json_parse env txt of
                      Inl e \<Rightarrow> None
                    | Inr packageJson \<Rightarrow>
                        (case manifest_info packageJson of
                           Inl e \<Rightarrow> None
                         | Inr info \<Rightarrow> Some info)))
         else None)"

text \<open>The pattern \<open>/\[remote "origin"\][\s\S]*?url\s*=\s*(.+)/\<close>.\<close>

definition git_url_pattern :: regex where
  "git_url_pattern =
     lit ''[remote '' @ [RLit (CHR 0x22)] @ lit ''origin'' @ [RLit (CHR 0x22)] @ lit '']''
       @ [RLazyStar CAny] @ lit ''url''
       @ [RStar CSpace, RLit CHR ''='', RStar CSpace, ROpen, RPlus CDot, RClose]"

definition git_repository :: "os \<Rightarrow> string \<Rightarrow> ProjectInfo \<Rightarrow> ProjectInfo" where
  "git_repository env dir info =
     (if \<not> truthy (repository info)
      then (let gitConfigPath = path_join env [dir, ''.git'', ''config'']
            in if existsSync env gitConfigPath
               then (case readFileSync env gitConfigPath of
                       Inl e \<Rightarrow> info
                     | Inr gitConfig \<Rightarrow>
                         (case re_match gitConfig git_url_pattern of
                            Some u \<Rightarrow> (if u \<noteq> [] then info\<lparr>repository := JStr (js_trim u)\<rparr>
                                      else info)
                          | None \<Rightarrow> info))
               else info)
      else info)"

text \<open>Memory and CPU, from the output of \<open>ps\<close>.\<close>

definition ps_command :: "string \<Rightarrow> string" where
  "ps_command p = ''ps -p '' @ p @ '' -o rss=,pcpu= 2>/dev/null''"

definition sample_usage :: "os \<Rightarrow> string \<Rightarrow> string option \<times> string option" where
  "sample_usage env p =
     (case execSync env (ps_command p) of
        Inl e \<Rightarrow> (None, None)
      | Inr out \<Rightarrow>
          (let psOutput = js_trim out
           in if psOutput \<noteq> []
              then (let parts = filter (\<lambda>t. t \<noteq> []) (split_ws psOutput)
                    in if length parts \<ge> 2
                       then (Some (format_memory env (parts ! 0)),
                             Some (format_cpu env (parts ! 1)))
                       else (None, None))
              else (None, None)))"

text \<open>The body of the outer \<open>try\<close>, and the function with its \<open>catch\<close>, which returns the
  empty object. The one statement before the \<open>try\<close> loads a module of the platform, which
  does not throw. Every call of the system in the body has a \<open>try\<close> of its own.\<close>

definition getProjectInfo_try :: "os \<Rightarrow> string \<Rightarrow> string \<Rightarrow> exn + details" where
  "getProjectInfo_try env p c =
     (case resolve_cwd env p c of
        None \<Rightarrow> Inr no_details
      | Some dir \<Rightarrow>
          (if dir = [] then Inr no_details
           else (let info = map_option (git_repository env dir) (read_package_json env dir);
                     usage = sample_usage env p
                 in Inr \<lparr>cwd = Some dir, projectInfo = info,
                         memory = fst usage, cpu = snd usage\<rparr>)))"

definition getProjectInfo :: "os \<Rightarrow> string \<Rightarrow> string \<Rightarrow> exn + details" where
  "getProjectInfo env p c =
     (case getProjectInfo_try env p c of
        Inl error \<Rightarrow> Inr no_details
      | Inr d \<Rightarrow> Inr d)"

section \<open>The port scanner and the process classifier\<close>

text \<open>The generic command, \<open>Node.js server on port ${port}\<close>.\<close>

definition placeholder :: "string \<Rightarrow> string" where
  "placeholder prt = ''Node.js server on port '' @ prt"

text \<open>One line of the output of \<open>lsof\<close>: the process id and the port, or nothing where the
  loop says \<open>continue\<close>. The port is the capture of \<open>/:(\d+)/\<close> in the second token.\<close>

definition port_pattern :: regex where
  "port_pattern = [RLit CHR '':'', ROpen, RPlus CDigit, RClose]"

definition parse_lsof_line :: "string \<Rightarrow> (string \<times> string) option" where
  "parse_lsof_line line =
     (let parts = split_ws (js_trim line)
      in if length parts < 2 then None
         else (let p = parts ! 0; address = parts ! 1
               in (case re_match address port_pattern of
                     None \<Rightarrow> None
                   | Some prt \<Rightarrow> Some (p, prt))))"

text \<open>The loop over the lines of \<open>ps\<close>: the first line that includes the process id and one
  of the three keywords gives the command, the tokens from the eleventh on.\<close>

fun scan_ps :: "string list \<Rightarrow> string \<Rightarrow> string option" where
  "scan_ps [] p = None"
| "scan_ps (psLine # ls) p =
     (if js_includes psLine p
      then (let lowerLine = toLowerCase psLine
            in if js_includes lowerLine ''nuxt'' \<or> js_includes lowerLine ''nuxi''
                  \<or> js_includes lowerLine ''nitro''
               then Some (join_sp (drop 10 (split_ws psLine)))
               else scan_ps ls p)
      else scan_ps ls p)"

text \<open>\<open>isNuxt\<close> and \<open>command\<close> for one candidate. The test \<open>if (psData)\<close> fails for
  \<open>undefined\<close> and for the empty string.\<close>

definition classify :: "string option \<Rightarrow> string \<Rightarrow> string \<Rightarrow> bool \<times> string" where
  "classify psData p prt =
     (case psData of
        None \<Rightarrow> (True, placeholder prt)
      | Some t \<Rightarrow>
          (if t \<noteq> []
           then (case scan_ps (split_lines t) p of
                   Some c \<Rightarrow> (True, c)
                 | None \<Rightarrow> (False, placeholder prt))
           else (True, placeholder prt)))"

fun scan_lsof :: "string option \<Rightarrow> string list \<Rightarrow> NuxtProcess list" where
  "scan_lsof psData [] = []"
| "scan_lsof psData (line # ls) =
     (case parse_lsof_line line of
        None \<Rightarrow> scan_lsof psData ls
      | Some (p, prt) \<Rightarrow>
          (let (isNuxt, c) = classify psData p prt
           in if isNuxt
              then \<lparr>cwd = None, projectInfo = None, memory = None, cpu = None,
                    pid = p, port = prt, command = c\<rparr> # scan_lsof psData ls
              else scan_lsof psData ls))"

text \<open>The list of candidate processes; \<open>None\<close> is the \<open>undefined\<close> that \<open>useExec\<close> gives while
  a command has not returned or after it has failed.\<close>

definition nuxtProcesses :: "string option \<Rightarrow> string option \<Rightarrow> NuxtProcess list" where
  "nuxtProcesses lsofData psData =
     (case lsofData of
        None \<Rightarrow> []
      | Some t \<Rightarrow>
          (if js_trim t = [] then []
           else scan_lsof psData (filter (\<lambda>l. js_trim l \<noteq> []) (split_lines (js_trim t)))))"

section \<open>The correlation store\<close>

text \<open>The \<open>Map\<close> from process ids to details is the list of its entries in insertion order;
  \<open>has\<close> is membership of the key, \<open>set\<close> is \<^const>\<open>AList.update\<close>, \<open>size\<close> is the length.
  The state of the component is the map together with the log of the calls of
  \<open>getProjectInfo\<close> (process id and command), which the source does not keep: it is what
  the statements about resolution work speak of.\<close>

type_synonym store = "(string \<times> details) list"

definition has :: "store \<Rightarrow> string \<Rightarrow> bool" where
  "has m k \<longleftrightarrow> k \<in> set (map fst m)"

record component =
  processDetails :: store
  calls :: "(string \<times> string) list"

text \<open>The loop that keeps the entries of the active processes.\<close>

fun keep_active :: "string list \<Rightarrow> store \<Rightarrow> store \<Rightarrow> store" where
  "keep_active activePids [] newDetails = newDetails"
| "keep_active activePids ((k, d) # es) newDetails =
     keep_active activePids es
       (if k \<in> set activePids then AList.update k d newDetails else newDetails)"

text \<open>The loop that resolves the processes that have no entry yet.\<close>

fun fetch_new :: "os \<Rightarrow> NuxtProcess list \<Rightarrow> store \<times> (string \<times> string) list
    \<Rightarrow> exn + store \<times> (string \<times> string) list" where
  "fetch_new env [] acc = Inr acc"
| "fetch_new env (pr # prs) (newDetails, log) =
     (if has newDetails (pid pr) then fetch_new env prs (newDetails, log)
      else (case getProjectInfo env (pid pr) (command pr) of
              Inl e \<Rightarrow> Inl e
            | Inr info \<Rightarrow>
                fetch_new env prs
                  (AList.update (pid pr) info newDetails, log @ [(pid pr, command pr)])))"

text \<open>The effect that reconciles the store with the processes of a poll.\<close>

definition useEffect :: "os \<Rightarrow> NuxtProcess list \<Rightarrow> component \<Rightarrow> exn + component" where
  "useEffect env procs st =
     (if length procs = 0
      then (if length (processDetails st) > 0 then Inr (st\<lparr>processDetails := []\<rparr>) else Inr st)
      else (let activePids = map pid procs;
                needsUpdate =
                  (list_ex (\<lambda>pr. \<not> has (processDetails st) (pid pr)) procs
                   \<or> list_ex (\<lambda>k. k \<notin> set activePids) (map fst (processDetails st)))
            in if \<not> needsUpdate then Inr st
               else (case fetch_new env procs
                            (keep_active activePids (processDetails st) [], calls st) of
                       Inl e \<Rightarrow> Inl e
                     | Inr (newDetails, log) \<Rightarrow>
                         Inr \<lparr>processDetails = newDetails, calls = log\<rparr>)))"

section \<open>Opening the repository\<close>


section \<open>Notions of the specification and fixtures\<close>

text \<open>The process id occurs as a token in some line of the process table: it is one of the
  pieces of the line between runs of white space.\<close>

definition pid_is_token :: "string \<Rightarrow> string \<Rightarrow> bool" where
  "pid_is_token t p \<longleftrightarrow> list_ex (\<lambda>l. p \<in> set (split_ws l)) (split_lines t)"

text \<open>The end of the third pattern, from the flag on.\<close>

definition flag_tail :: regex where
  "flag_tail = lit ''-C'' @ [RPlus CSpace, ROpen, RPlus CNotSpace, RClose]"

text \<open>\<open>path.join\<close> on segments that need no normalisation.\<close>

fun join_slash :: "string list \<Rightarrow> string" where
  "join_slash [] = ''.''"
| "join_slash [x] = x"
| "join_slash (x # y # ys) = x @ ''/'' @ join_slash (y # ys)"

text \<open>A system on which every command and every read fails.\<close>

definition failing_os :: os where
  "failing_os =
     \<lparr>execSync = (\<lambda>c. Inl SystemError),
      existsSync = (\<lambda>f. True),
      readFileSync = (\<lambda>f. Inl SystemError),
      json_parse = (\<lambda>t. Inl SyntaxError),
      path_join = join_slash,
      format_memory = (\<lambda>t. t @ '' MB''),
      format_cpu = (\<lambda>t. t @ ''%'')\<rparr>"

text \<open>A system on which \<open>ps\<close> answers and \<open>lsof\<close> fails.\<close>

definition sampling_os :: os where
  "sampling_os = failing_os
     \<lparr>execSync := (\<lambda>c. if startsWith c ''ps '' then Inr ''51200  1.5'' else Inl SystemError),
      format_memory := (\<lambda>t. ''50 MB''),
      format_cpu := (\<lambda>t. ''1.5%'')\<rparr>"

text \<open>A system whose manifest is not JSON.\<close>

definition broken_manifest_os :: os where
  "broken_manifest_os = failing_os\<lparr>readFileSync := (\<lambda>f. Inr ''{'')\<rparr>"

text \<open>A system with a manifest without repository and an unreadable version-control
  configuration.\<close>

definition manifest_x :: jsval where
  "manifest_x = JObj [(''name'', JStr ''x''), (''version'', JStr ''1.2.3'')]"

definition dq :: "string \<Rightarrow> string" where
  "dq s = CHR 0x22 # s @ [CHR 0x22]"

definition manifest_text :: string where
  "manifest_text =
     ''{'' @ dq ''name'' @ '':'' @ dq ''x'' @ '','' @ dq ''version'' @ '':'' @ dq ''1.2.3'' @ ''}''"

definition manifest_os :: os where
  "manifest_os = failing_os
     \<lparr>readFileSync :=
        (\<lambda>f. if f = ''/home/u/app/package.json'' then Inr manifest_text else Inl SystemError),
      json_parse := (\<lambda>t. if t = manifest_text then Inr manifest_x else Inl SyntaxError)\<rparr>"

text \<open>A command line that the first and the third pattern both match.\<close>

definition two_matches :: string where
  "two_matches = ''npx nuxi dev -C /srv/proj node /x/node_modules/nuxt dev''"

definition nuxt_dev :: string where
  "nuxt_dev = ''node /home/u/app/node_modules/.bin/nuxt dev''"

text \<open>One line of \<open>ps aux\<close>, for the process 1234.\<close>

definition ps_table :: string where
  "ps_table = ''u 1234 0.0 0.1 4000 2000 ?? S 10:00AM 0:01.00 node /a/node_modules/nuxt/bin/nuxt.mjs dev''"

definition process :: "string \<Rightarrow> string \<Rightarrow> string \<Rightarrow> NuxtProcess" where
  "process p prt c =
     \<lparr>cwd = None, projectInfo = None, memory = None, cpu = None,
      pid = p, port = prt, command = c\<rparr>"

definition details_app :: details where
  "details_app =
     \<lparr>cwd = Some ''/home/u/app'', projectInfo = None,
      memory = Some ''50 MB'', cpu = Some ''1.5%''\<rparr>"

definition two_processes :: "NuxtProcess list" where
  "two_processes = [process ''1234'' ''3000'' nuxt_dev, process ''5678'' ''3001'' ''node server.js'']"

definition stale_component :: component where
  "stale_component =
     \<lparr>processDetails = [(''1234'', details_app), (''999'', no_details)], calls = []\<rparr>"

definition settled_component :: component where
  "settled_component =
     \<lparr>processDetails = [(''1234'', details_app), (''5678'', no_details)],
      calls = [(''5678'', ''node server.js'')]\<rparr>"

section \<open>Auxiliary facts\<close>

lemma getProjectInfo_returns: "\<exists>d. getProjectInfo env p c = Inr d"
  by (simp add: getProjectInfo_def getProjectInfo_try_def Let_def split: option.splits sum.splits)

lemma getProjectInfo_found:
  "resolve_cwd env p c = Some dir \<Longrightarrow> dir \<noteq> [] \<Longrightarrow>
   getProjectInfo env p c =
     Inr \<lparr>cwd = Some dir,
          projectInfo = map_option (git_repository env dir) (read_package_json env dir),
          memory = fst (sample_usage env p), cpu = snd (sample_usage env p)\<rparr>"
  by (simp add: getProjectInfo_def getProjectInfo_try_def Let_def)

lemma read_fails:
  "readFileSync env (path_join env [dir, ''package.json'']) = Inl e \<Longrightarrow>
   read_package_json env dir = None"
  by (simp add: read_package_json_def Let_def)

lemma parse_fails:
  "readFileSync env (path_join env [dir, ''package.json'']) = Inr txt \<Longrightarrow>
   json_parse env txt = Inl e \<Longrightarrow> read_package_json env dir = None"
  by (simp add: read_package_json_def Let_def)

lemma git_fails:
  "readFileSync env (path_join env [dir, ''.git'', ''config'']) = Inl e \<Longrightarrow>
   git_repository env dir info = info"
  by (simp add: git_repository_def Let_def)

lemma ps_fails: "execSync env (ps_command p) = Inl e \<Longrightarrow> sample_usage env p = (None, None)"
  by (simp add: sample_usage_def)

lemma lsof_fails: "execSync env (lsof_command p) = Inl e \<Longrightarrow> cwd_from_lsof env p = None"
  by (simp add: cwd_from_lsof_def)

lemma js_trim_spaces: "\<forall>c \<in> set t. is_space c \<Longrightarrow> js_trim t = []"
  by (auto simp: js_trim_def dest: set_dropWhileD)

lemma classify_unavailable: "classify None p prt = (True, ''Node.js server on port '' @ prt)"
  by (simp add: classify_def placeholder_def)

lemma has_keys: "has m k \<longleftrightarrow> k \<in> fst ` set m"
  by (simp add: has_def)

subsection \<open>The loops of the effect\<close>

lemma keep_active_keys:
  "fst ` set (keep_active act es nd) = fst ` set nd \<union> (fst ` set es \<inter> set act)"
  by (induction act es nd rule: keep_active.induct) (auto simp: dom_update)

lemma keep_active_distinct:
  "distinct (map fst nd) \<Longrightarrow> distinct (map fst (keep_active act es nd))"
  by (induction act es nd rule: keep_active.induct) (auto simp: distinct_update)

lemma keep_active_lookup:
  "distinct (map fst es) \<Longrightarrow>
   map_of (keep_active act es nd) k =
     (if k \<in> set act \<and> k \<in> fst ` set es then map_of es k else map_of nd k)"
proof (induction act es nd rule: keep_active.induct)
  case (1 act nd)
  then show ?case by simp
next
  case (2 act k' d es nd)
  then show ?case
    by (auto simp: update_conv' map_of_eq_None_iff)
qed

text \<open>The loop over the processes returns; it adds an entry for each process that has
  none, leaves the entries that are there as they are, and calls the resolver once for
  each process id that has no entry.\<close>

lemma fetch_new_result:
  "\<exists>nd' new. fetch_new env prs (nd, lg) = Inr (nd', lg @ new)
     \<and> fst ` set nd' = fst ` set nd \<union> pid ` set prs
     \<and> (distinct (map fst nd) \<longrightarrow> distinct (map fst nd'))
     \<and> (\<forall>k \<in> fst ` set nd. map_of nd' k = map_of nd k)
     \<and> distinct (map fst new)
     \<and> set (map fst new) = pid ` set prs - fst ` set nd"
proof (induction prs arbitrary: nd lg)
  case Nil
  show ?case by (rule exI[of _ nd], rule exI[of _ "[]"]) simp
next
  case (Cons pr prs)
  show ?case
  proof (cases "has nd (pid pr)")
    case True
    from Cons.IH[of nd lg] obtain nd' new where
      h: "fetch_new env prs (nd, lg) = Inr (nd', lg @ new)"
         "fst ` set nd' = fst ` set nd \<union> pid ` set prs"
         "distinct (map fst nd) \<longrightarrow> distinct (map fst nd')"
         "\<forall>k \<in> fst ` set nd. map_of nd' k = map_of nd k"
         "distinct (map fst new)"
         "set (map fst new) = pid ` set prs - fst ` set nd"
      by (elim exE conjE) (rule that; assumption)
    from True have m: "pid pr \<in> fst ` set nd" by (simp add: has_keys)
    have a: "fetch_new env (pr # prs) (nd, lg) = Inr (nd', lg @ new)"
      using True h(1) by simp
    have b: "fst ` set nd' = fst ` set nd \<union> pid ` set (pr # prs)"
      using h(2) m by auto
    have f: "set (map fst new) = pid ` set (pr # prs) - fst ` set nd"
      using h(6) m by auto
    show ?thesis
      by (rule exI[of _ nd'], rule exI[of _ new]) (intro conjI a b h(3) h(4) h(5) f)
  next
    case False
    obtain info where gi: "getProjectInfo env (pid pr) (command pr) = Inr info"
      using getProjectInfo_returns by blast
    let ?nd = "AList.update (pid pr) info nd"
    let ?lg = "lg @ [(pid pr, command pr)]"
    from Cons.IH[of ?nd ?lg] obtain nd' new where
      h: "fetch_new env prs (?nd, ?lg) = Inr (nd', ?lg @ new)"
         "fst ` set nd' = fst ` set ?nd \<union> pid ` set prs"
         "distinct (map fst ?nd) \<longrightarrow> distinct (map fst nd')"
         "\<forall>k \<in> fst ` set ?nd. map_of nd' k = map_of ?nd k"
         "distinct (map fst new)"
         "set (map fst new) = pid ` set prs - fst ` set ?nd"
      by (elim exE conjE) (rule that; assumption)
    from False have m: "pid pr \<notin> fst ` set nd" by (simp add: has_keys)
    let ?new = "(pid pr, command pr) # new"
    have a: "fetch_new env (pr # prs) (nd, lg) = Inr (nd', lg @ ?new)"
      using False gi h(1) by simp
    have b: "fst ` set nd' = fst ` set nd \<union> pid ` set (pr # prs)"
      using h(2) by (auto simp: dom_update)
    have c: "distinct (map fst nd) \<longrightarrow> distinct (map fst nd')"
      using h(3) by (simp add: distinct_update)
    have d: "\<forall>k \<in> fst ` set nd. map_of nd' k = map_of nd k"
    proof
      fix k assume k: "k \<in> fst ` set nd"
      with m have "k \<noteq> pid pr" by blast
      from k have "k \<in> fst ` set ?nd" by (simp add: dom_update)
      then have "map_of nd' k = map_of ?nd k" using h(4) by blast
      with \<open>k \<noteq> pid pr\<close> show "map_of nd' k = map_of nd k"
        by (simp add: update_conv')
    qed
    have e: "distinct (map fst ?new)"
      using h(5,6) by (auto simp: dom_update)
    have f: "set (map fst ?new) = pid ` set (pr # prs) - fst ` set nd"
      using h(6) m by (auto simp: dom_update)
    show ?thesis
      by (rule exI[of _ nd'], rule exI[of _ ?new]) (intro conjI a b c d e f)
  qed
qed

subsection \<open>The loop over the patterns\<close>


text \<open>The replacement of \<open>/\/$/\<close> by the empty string removes one slash at the end.\<close>

lemma rmatch_slash_end:
  "rmatch [RLit CHR ''/'', REnd] s (False, []) = (if s = ''/'' then Some ([], []) else None)"
  by (cases s) auto

lemma re_search_slash_end:
  "re_search [RLit CHR ''/'', REnd] pre s =
     (if s \<noteq> [] \<and> last s = CHR ''/'' then Some (rev pre @ butlast s, [], []) else None)"
proof (induction s arbitrary: pre)
  case Nil
  show ?case by simp
next
  case (Cons x xs)
  show ?case by (auto simp: rmatch_slash_end Cons.IH)
qed

lemma strip_trailing_slash:
  "re_remove m [RLit CHR ''/'', REnd] = (if m \<noteq> [] \<and> last m = CHR ''/'' then butlast m else m)"
  by (simp add: re_remove_def re_search_slash_end)

text \<open>The first pattern of the list that matches with a capture gives the result, whatever
  the patterns after it do.\<close>

lemma first_pattern_first_match:
  assumes "i < length ps" and "re_match c (ps ! i) = Some m" and "m \<noteq> []"
    and "\<forall>j<i. re_match c (ps ! j) = None \<or> re_match c (ps ! j) = Some []"
  shows "first_pattern ps c = Some (re_remove m [RLit CHR ''/'', REnd])"
  using assms
proof (induction ps arbitrary: i)
  case Nil
  then show ?case by simp
next
  case (Cons q qs)
  show ?case
  proof (cases i)
    case 0
    with Cons.prems show ?thesis by simp
  next
    case (Suc k)
    with Cons.prems have q: "re_match c q = None \<or> re_match c q = Some []" by auto
    from Suc Cons.prems have "k < length qs" "re_match c (qs ! k) = Some m"
      "\<forall>j<k. re_match c (qs ! j) = None \<or> re_match c (qs ! j) = Some []" by auto
    from Cons.IH[OF this(1,2) \<open>m \<noteq> []\<close> this(3)] q show ?thesis by auto
  qed
qed

lemma first_pattern_no_match:
  "\<forall>j<length ps. re_match c (ps ! j) = None \<or> re_match c (ps ! j) = Some [] \<Longrightarrow>
   first_pattern ps c = None"
proof (induction ps)
  case Nil
  show ?case by simp
next
  case (Cons q qs)
  from Cons.prems have "re_match c q = None \<or> re_match c q = Some []" by auto
  moreover from Cons.prems
  have "\<forall>j<length qs. re_match c (qs ! j) = None \<or> re_match c (qs ! j) = Some []" by auto
  ultimately show ?case using Cons.IH by auto
qed

subsection \<open>The suffix of the repository URL\<close>



subsection \<open>The third pattern on a command line with the flag\<close>

lemma space_chars:
  "is_space CHR '' ''" "\<not> is_space CHR ''/''" "\<not> is_space CHR ''s''" "\<not> is_space CHR ''r''"
  "\<not> is_space CHR ''v''" "\<not> is_space CHR ''p''" "\<not> is_space CHR ''o''" "\<not> is_space CHR ''j''"
  "\<not> is_space CHR ''-''" "\<not> is_space CHR ''n''"
  by (simp_all add: is_space_def)

text \<open>The greedy capture takes the whole path, up to the white space or the end.\<close>

lemma rmatch_path:
  assumes "sl = [] \<or> sl = ''/''" and "post = [] \<or> is_space (hd post)"
  shows "rmatch [RStar CNotSpace, RClose] (''srv/proj'' @ sl @ post) (True, ''/'')
           = Some (''/srv/proj'' @ sl, post)"
proof (cases post)
  case Nil
  with assms(1) show ?thesis by (auto simp: space_chars)
next
  case (Cons s ps)
  with assms(2) have "is_space s" by simp
  with Cons assms(1) show ?thesis by (auto simp: space_chars)
qed

lemma rmatch_flag:
  assumes "sl = [] \<or> sl = ''/''" and "post = [] \<or> is_space (hd post)"
  shows "rmatch flag_tail (''-C /srv/proj'' @ sl @ post) (False, cap)
           = Some (''/srv/proj'' @ sl, post)"
  using rmatch_path[OF assms] by (simp add: flag_tail_def lit_def space_chars)

text \<open>A run of white space that starts before the flag either fails or reaches it.\<close>

lemma rmatch_spaces_flag:
  assumes "sl = [] \<or> sl = ''/''" and "post = [] \<or> is_space (hd post)"
    and "\<not> js_includes w ''-C''"
  shows "rmatch (RStar CSpace # flag_tail) (w @ '' -C /srv/proj'' @ sl @ post) (False, cap)
           \<in> {None, Some (''/srv/proj'' @ sl, post)}"
  using assms(3)
proof (induction w)
  case Nil
  show ?case using rmatch_flag[OF assms(1,2)] by (simp add: space_chars)
next
  case (Cons y w)
  from Cons.prems have nw: "\<not> js_includes w ''-C''" and ns: "\<not> startsWith (y # w) ''-C''"
    by simp_all
  have fl: "rmatch flag_tail (y # w @ '' -C /srv/proj'' @ sl @ post) (False, cap) = None"
  proof (cases w)
    case Nil
    then show ?thesis by (simp add: flag_tail_def lit_def)
  next
    case (Cons z zs)
    with ns show ?thesis by (auto simp: flag_tail_def lit_def startsWith_def)
  qed
  from Cons.IH[OF nw] fl show ?case
    by (auto split: option.splits)
qed

text \<open>The lazy repetition stops at the first place where the rest matches, which is
  where the flag is.\<close>

lemma rmatch_lazy_flag:
  assumes "sl = [] \<or> sl = ''/''" and "post = [] \<or> is_space (hd post)"
    and "\<not> js_includes mid ''-C''" and "\<forall>ch \<in> set mid. ch \<noteq> LF \<and> ch \<noteq> CR"
  shows "rmatch (RLazyStar CDot # RPlus CSpace # flag_tail)
           (mid @ '' -C /srv/proj'' @ sl @ post) (False, cap)
           = Some (''/srv/proj'' @ sl, post)"
  using assms(3,4)
proof (induction mid)
  case Nil
  show ?case using rmatch_flag[OF assms(1,2)] by (simp add: space_chars)
next
  case (Cons x m)
  from Cons.prems have nm: "\<not> js_includes m ''-C''" and dot: "in_class CDot x"
    and dm: "\<forall>ch \<in> set m. ch \<noteq> LF \<and> ch \<noteq> CR"
    by simp_all
  have "rmatch (RPlus CSpace # flag_tail) (x # m @ '' -C /srv/proj'' @ sl @ post) (False, cap)
          \<in> {None, Some (''/srv/proj'' @ sl, post)}"
    using rmatch_spaces_flag[OF assms(1,2) nm, of cap] by simp
  with Cons.IH[OF nm dm] dot show ?case
    by (auto split: option.splits)
qed

lemma nuxi_pattern:
  "nuxtPatterns ! 2 =
     lit ''npx'' @ [RPlus CSpace] @ lit ''nuxi'' @ [RLazyStar CDot, RPlus CSpace] @ flag_tail"
  by (simp add: nuxtPatterns_def flag_tail_def)

lemma re_match_nuxi:
  assumes "sl = [] \<or> sl = ''/''" and "post = [] \<or> is_space (hd post)"
    and "\<not> js_includes mid ''-C''" and "\<forall>ch \<in> set mid. ch \<noteq> LF \<and> ch \<noteq> CR"
  shows "re_match (''npx nuxi'' @ mid @ '' -C /srv/proj'' @ sl @ post) (nuxtPatterns ! 2)
           = Some (''/srv/proj'' @ sl)"
  using rmatch_lazy_flag[OF assms, of "[]"]
  by (simp add: nuxi_pattern re_match_def lit_def space_chars)

lemma strip_slash:
  "sl = [] \<or> sl = ''/'' \<Longrightarrow> re_remove (''/srv/proj'' @ sl) [RLit CHR ''/'', REnd] = ''/srv/proj''"
  by (auto simp: re_remove_def)

lemma nuxtPatterns_list:
  "nuxtPatterns = [nuxtPatterns ! 0, nuxtPatterns ! 1, nuxtPatterns ! 2, nuxtPatterns ! 3]"
  by (simp add: nuxtPatterns_def)

section \<open>The correlation store\<close>

text \<open>
  Claim C1. Reconcile is idempotent: when the process ids of the poll are the keys of the
  store, the effect calls the resolver for no process and leaves the store as it is. The
  whole state of the component, the store and the log of the calls, is unchanged.
\<close>

theorem reconcile_idempotent:
  "set (map pid procs) = set (map fst (processDetails st)) \<Longrightarrow> useEffect env procs st = Inr st"
proof (cases procs)
  case Nil
  assume "set (map pid procs) = set (map fst (processDetails st))"
  with Nil have "processDetails st = []" by simp
  with Nil show ?thesis by (simp add: useEffect_def)
next
  case (Cons a as)
  assume eq: "set (map pid procs) = set (map fst (processDetails st))"
  have 1: "\<not> list_ex (\<lambda>pr. \<not> has (processDetails st) (pid pr)) procs"
    using eq by (auto simp: list_ex_iff has_def)
  have 2: "\<not> list_ex (\<lambda>k. k \<notin> set (map pid procs)) (map fst (processDetails st))"
    using eq by (auto simp: list_ex_iff)
  from Cons 1 2 show ?thesis by (simp add: useEffect_def Let_def)
qed

theorem reconcile_idempotent_witness:
  "set (map pid two_processes) = set (map fst (processDetails settled_component))
   \<and> useEffect failing_os two_processes settled_component = Inr settled_component"
proof -
  have h: "set (map pid two_processes) = set (map fst (processDetails settled_component))"
    by (simp add: two_processes_def settled_component_def process_def)
  show ?thesis
    using h reconcile_idempotent[OF h, of failing_os] by simp
qed

text \<open>
  Claim C2. After the effect has run, the keys of the store are the process ids of the
  poll: the entry of an id that the poll does not have is gone (all of them when the poll
  is empty), the entry of an id that the poll and the store both have holds the details it
  held, and the resolver has been called for the ids of the poll that had no entry, once
  for each, and for no other. The keys of the store are distinct, as the keys of a
  \<open>Map\<close> are, before and after.
\<close>

theorem reconcile_keys_exact:
  assumes "distinct (map fst (processDetails st))"
  shows "\<exists>st' new. useEffect env procs st = Inr st'
     \<and> set (map fst (processDetails st')) = set (map pid procs)
     \<and> distinct (map fst (processDetails st'))
     \<and> (\<forall>k \<in> set (map pid procs). has (processDetails st) k \<longrightarrow>
           map_of (processDetails st') k = map_of (processDetails st) k)
     \<and> calls st' = calls st @ new
     \<and> distinct (map fst new)
     \<and> set (map fst new) = set (map pid procs) - set (map fst (processDetails st))"
proof (cases "procs = []")
  case True
  show ?thesis
  proof (cases "processDetails st = []")
    case True
    with \<open>procs = []\<close> have "useEffect env procs st = Inr st" by (simp add: useEffect_def)
    with True \<open>procs = []\<close> show ?thesis
      by - (rule exI[of _ st], rule exI[of _ "[]"], simp)
  next
    case False
    with \<open>procs = []\<close> have "useEffect env procs st = Inr (st\<lparr>processDetails := []\<rparr>)"
      by (simp add: useEffect_def)
    with \<open>procs = []\<close> show ?thesis
      by - (rule exI[of _ "st\<lparr>processDetails := []\<rparr>"], rule exI[of _ "[]"], simp)
  qed
next
  case False
  let ?act = "map pid procs"
  let ?upd = "list_ex (\<lambda>pr. \<not> has (processDetails st) (pid pr)) procs
                \<or> list_ex (\<lambda>k. k \<notin> set ?act) (map fst (processDetails st))"
  show ?thesis
  proof (cases ?upd)
    case no: False
    with False have u: "useEffect env procs st = Inr st" by (simp add: useEffect_def Let_def)
    from no have "set (map fst (processDetails st)) = set (map pid procs)"
      by (auto simp: list_ex_iff has_def)
    with u assms show ?thesis
      by - (rule exI[of _ st], rule exI[of _ "[]"], simp)
  next
    case yes: True
    let ?kept = "keep_active ?act (processDetails st) []"
    from fetch_new_result[of env procs ?kept "calls st"] obtain nd' new where
      h: "fetch_new env procs (?kept, calls st) = Inr (nd', calls st @ new)"
         "fst ` set nd' = fst ` set ?kept \<union> pid ` set procs"
         "distinct (map fst ?kept) \<longrightarrow> distinct (map fst nd')"
         "\<forall>k \<in> fst ` set ?kept. map_of nd' k = map_of ?kept k"
         "distinct (map fst new)"
         "set (map fst new) = pid ` set procs - fst ` set ?kept"
      by (elim exE conjE) (rule that; assumption)
    have kk: "fst ` set ?kept = fst ` set (processDetails st) \<inter> pid ` set procs"
      by (simp add: keep_active_keys)
    let ?st' = "\<lparr>processDetails = nd', calls = calls st @ new\<rparr>"
    have a: "useEffect env procs st = Inr ?st'"
      using False yes h(1) by (auto simp: useEffect_def Let_def)
    have b: "set (map fst (processDetails ?st')) = set (map pid procs)"
      using h(2) kk by auto
    have c: "distinct (map fst (processDetails ?st'))"
      using h(3) by (simp add: keep_active_distinct)
    have d: "\<forall>k \<in> set (map pid procs). has (processDetails st) k \<longrightarrow>
           map_of (processDetails ?st') k = map_of (processDetails st) k"
    proof (intro ballI impI)
      fix k assume k: "k \<in> set (map pid procs)" "has (processDetails st) k"
      then have "k \<in> fst ` set ?kept" using kk by (auto simp: has_keys)
      then have "map_of nd' k = map_of ?kept k" using h(4) by blast
      also have "\<dots> = map_of (processDetails st) k"
        using k assms by (simp add: keep_active_lookup has_keys)
      finally show "map_of (processDetails ?st') k = map_of (processDetails st) k" by simp
    qed
    have e: "set (map fst new) = set (map pid procs) - set (map fst (processDetails st))"
      using h(6) kk by auto
    have g: "calls ?st' = calls st @ new" by simp
    show ?thesis
      by (rule exI[of _ ?st'], rule exI[of _ new]) (intro conjI a b c d g h(5) e)
  qed
qed

text \<open>The witness: the store holds the processes 1234 and 999, the poll has 1234 and 5678.
  The entry of 999 goes, the entry of 1234 stays, and 5678 is resolved.\<close>

theorem reconcile_keys_exact_witness:
  "distinct (map fst (processDetails stale_component))
   \<and> ''1234'' \<in> set (map pid two_processes) \<and> has (processDetails stale_component) ''1234''
   \<and> useEffect failing_os two_processes stale_component = Inr settled_component
   \<and> (\<exists>st' new. useEffect failing_os two_processes stale_component = Inr st'
       \<and> set (map fst (processDetails st')) = set (map pid two_processes)
       \<and> distinct (map fst (processDetails st'))
       \<and> (\<forall>k \<in> set (map pid two_processes). has (processDetails stale_component) k \<longrightarrow>
             map_of (processDetails st') k = map_of (processDetails stale_component) k)
       \<and> calls st' = calls stale_component @ new
       \<and> distinct (map fst new)
       \<and> set (map fst new)
            = set (map pid two_processes) - set (map fst (processDetails stale_component)))"
proof -
  have h: "distinct (map fst (processDetails stale_component))"
    by (simp add: stale_component_def)
  have i: "''1234'' \<in> set (map pid two_processes)"
    by (simp add: two_processes_def process_def)
  have j: "has (processDetails stale_component) ''1234''"
    by (simp add: stale_component_def has_def)
  have k: "useEffect failing_os two_processes stale_component = Inr settled_component"
    by code_simp
  show ?thesis
    by (intro conjI h i j k reconcile_keys_exact[OF h])
qed

section \<open>The process classifier\<close>

text \<open>
  Claim C3 says that the classifier returns no match when no line of the process table
  has the process id as a token. The code looks for the line of the process with
  \<open>psLine.includes(pid)\<close>, a test for a substring, in a loop that is there to verify the
  candidate against the process table and that splits the same line into tokens for the
  command. The process id 123 is no token of the line of the process 1234; the classifier
  takes that line for the process 123, and the process 123 is listed as a server, with
  the command line of the process 1234.
\<close>

theorem classify_pid_substring:
  "\<not> pid_is_token ps_table ''123''
   \<and> classify (Some ps_table) ''123'' ''3000''
       = (True, ''node /a/node_modules/nuxt/bin/nuxt.mjs dev'')
   \<and> map (\<lambda>pr. (pid pr, port pr, command pr))
         (nuxtProcesses (Some ''123 *:3000'') (Some ps_table))
       = [(''123'', ''3000'', ''node /a/node_modules/nuxt/bin/nuxt.mjs dev'')]"
  by code_simp

section \<open>The port scanner\<close>

text \<open>
  Claim C4 says that the port is the trailing \<open>:digits\<close> of the address. The pattern of the
  code is not anchored at the end: it takes the digits after the first colon that a digit
  follows. For the address \<open>[::1]:3000\<close>, which \<open>lsof -n -P\<close> prints for a server that
  listens on the IPv6 loopback address, the port is \<open>1\<close>, not \<open>3000\<close>.
\<close>

theorem port_of_ipv6_address:
  "parse_lsof_line ''1234 [::1]:3000'' = Some (''1234'', ''1'')"
  by code_simp

text \<open>
  Claim C8. When the command of the port scanner fails (its output is \<open>undefined\<close>) or its
  output is empty or white space only, the list of candidate processes is empty. The
  function returns a list on every input: no operation in it throws.
\<close>

theorem nuxtProcesses_no_output:
  "nuxtProcesses None psData = []
   \<and> ((\<forall>c \<in> set t. is_space c) \<longrightarrow> nuxtProcesses (Some t) psData = [])"
  by (simp add: nuxtProcesses_def js_trim_spaces)

theorem nuxtProcesses_no_output_witness:
  "list_all is_space [CHR 0x20, LF]
   \<and> nuxtProcesses (Some [CHR 0x20, LF]) (Some ps_table) = []
   \<and> nuxtProcesses (Some []) (Some ps_table) = []
   \<and> nuxtProcesses None (Some ps_table) = []"
proof -
  have h: "\<forall>c \<in> set [CHR 0x20, LF]. is_space c"
    by (simp add: is_space_def LF_def)
  show ?thesis
    using h nuxtProcesses_no_output[of "Some ps_table" "[CHR 0x20, LF]"]
      nuxtProcesses_no_output[of "Some ps_table" "[]"]
    by simp
qed

section \<open>The project resolver\<close>

text \<open>
  Claim C5. For the command line \<open>node /home/u/app/node_modules/.bin/nuxt dev\<close> the
  directory inferred from the command line is \<open>/home/u/app\<close>, and on every system
  \<open>getProjectInfo\<close> returns it as \<open>cwd\<close>. The patterns are tried in their order: for
  every command line, when a pattern of the list matches with a capture and no pattern
  before it does, the result is the capture of that pattern, whatever the patterns after
  it match, with the slash at its end, if it ends with one, removed; and when no pattern
  matches, there is no result.
\<close>

theorem cwd_of_nuxt_bin_command:
  "cwd_from_command ''node /home/u/app/node_modules/.bin/nuxt dev'' = Some ''/home/u/app''
   \<and> re_match ''node /home/u/app/node_modules/.bin/nuxt dev'' (nuxtPatterns ! 0)
        = Some ''/home/u/app''
   \<and> (\<forall>i m. i < length nuxtPatterns \<and> re_match c (nuxtPatterns ! i) = Some m \<and> m \<noteq> []
          \<and> (\<forall>j<i. re_match c (nuxtPatterns ! j) = None
                   \<or> re_match c (nuxtPatterns ! j) = Some [])
        \<longrightarrow> cwd_from_command c = Some (if last m = CHR ''/'' then butlast m else m))
   \<and> ((\<forall>j<length nuxtPatterns. re_match c (nuxtPatterns ! j) = None
                   \<or> re_match c (nuxtPatterns ! j) = Some [])
        \<longrightarrow> cwd_from_command c = None)
   \<and> (\<exists>d. getProjectInfo env p ''node /home/u/app/node_modules/.bin/nuxt dev'' = Inr d
          \<and> cwd d = Some ''/home/u/app'')"
proof -
  have a: "cwd_from_command ''node /home/u/app/node_modules/.bin/nuxt dev'' = Some ''/home/u/app''"
    by code_simp
  have b: "re_match ''node /home/u/app/node_modules/.bin/nuxt dev'' (nuxtPatterns ! 0)
             = Some ''/home/u/app''"
    by code_simp
  have f: "\<forall>i m. i < length nuxtPatterns \<and> re_match c (nuxtPatterns ! i) = Some m \<and> m \<noteq> []
          \<and> (\<forall>j<i. re_match c (nuxtPatterns ! j) = None
                   \<or> re_match c (nuxtPatterns ! j) = Some [])
        \<longrightarrow> cwd_from_command c = Some (if last m = CHR ''/'' then butlast m else m)"
  proof (intro allI impI, elim conjE)
    fix i m
    assume h: "i < length nuxtPatterns" "re_match c (nuxtPatterns ! i) = Some m" "m \<noteq> []"
      "\<forall>j<i. re_match c (nuxtPatterns ! j) = None \<or> re_match c (nuxtPatterns ! j) = Some []"
    have "cwd_from_command c = Some (re_remove m [RLit CHR ''/'', REnd])"
      unfolding cwd_from_command_def by (rule first_pattern_first_match[OF h])
    with h(3) show "cwd_from_command c = Some (if last m = CHR ''/'' then butlast m else m)"
      by (simp add: strip_trailing_slash)
  qed
  have n: "(\<forall>j<length nuxtPatterns. re_match c (nuxtPatterns ! j) = None
                   \<or> re_match c (nuxtPatterns ! j) = Some [])
        \<longrightarrow> cwd_from_command c = None"
    unfolding cwd_from_command_def by (intro impI) (rule first_pattern_no_match)
  have "resolve_cwd env p ''node /home/u/app/node_modules/.bin/nuxt dev'' = Some ''/home/u/app''"
    by (simp add: resolve_cwd_def a)
  then have c: "\<exists>d. getProjectInfo env p ''node /home/u/app/node_modules/.bin/nuxt dev'' = Inr d
          \<and> cwd d = Some ''/home/u/app''"
    by (simp add: getProjectInfo_found)
  from a b f n c show ?thesis by (intro conjI)
qed

text \<open>The witness: a command line that the first and the third pattern match, where the
  capture of the first is the result; a command line that the second pattern matches and
  the first does not, where the capture of the second, without the slash at its end, is
  the result; and a command line that no pattern matches.\<close>

theorem cwd_of_nuxt_bin_command_witness:
  "re_match two_matches (nuxtPatterns ! 0) = Some ''/x''
   \<and> re_match two_matches (nuxtPatterns ! 2) = Some ''/srv/proj''
   \<and> cwd_from_command two_matches = Some ''/x''
   \<and> re_match ''node /home/u/app/.nuxt/dev/index.mjs'' (nuxtPatterns ! 0) = None
   \<and> re_match ''node /home/u/app/.nuxt/dev/index.mjs'' (nuxtPatterns ! 1) = Some ''/home/u/app/''
   \<and> cwd_from_command ''node /home/u/app/.nuxt/dev/index.mjs'' = Some ''/home/u/app''
   \<and> list_all (\<lambda>pat. re_match ''node server.js'' pat = None) nuxtPatterns
   \<and> cwd_from_command ''node server.js'' = None"
proof -
  have len: "length nuxtPatterns = 4" by (simp add: nuxtPatterns_def)
  have a0: "re_match two_matches (nuxtPatterns ! 0) = Some ''/x''" by code_simp
  have a2: "re_match two_matches (nuxtPatterns ! 2) = Some ''/srv/proj''" by code_simp
  have a: "cwd_from_command two_matches = Some ''/x''"
    using cwd_of_nuxt_bin_command[of two_matches, THEN conjunct2, THEN conjunct2,
        THEN conjunct1, rule_format, of 0 "''/x''"] a0 len
    by simp
  have b0: "re_match ''node /home/u/app/.nuxt/dev/index.mjs'' (nuxtPatterns ! 0) = None"
    by code_simp
  have b1: "re_match ''node /home/u/app/.nuxt/dev/index.mjs'' (nuxtPatterns ! 1)
              = Some ''/home/u/app/''"
    by code_simp
  have b: "cwd_from_command ''node /home/u/app/.nuxt/dev/index.mjs'' = Some ''/home/u/app''"
    using cwd_of_nuxt_bin_command[of "''node /home/u/app/.nuxt/dev/index.mjs''",
        THEN conjunct2, THEN conjunct2, THEN conjunct1, rule_format,
        of 1 "''/home/u/app/''"] b0 b1 len
    by simp
  have c0: "list_all (\<lambda>pat. re_match ''node server.js'' pat = None) nuxtPatterns" by code_simp
  then have "\<forall>j<length nuxtPatterns. re_match ''node server.js'' (nuxtPatterns ! j) = None"
    by (simp add: list_all_length)
  then have c: "cwd_from_command ''node server.js'' = None"
    using cwd_of_nuxt_bin_command[of "''node server.js''", THEN conjunct2, THEN conjunct2,
        THEN conjunct2, THEN conjunct1]
    by simp
  from a0 a2 a b0 b1 b c0 c show ?thesis by (intro conjI)
qed

text \<open>
  Claim C6, as the specification states it, fails on the code: the flag is looked for by
  the third pattern only, which asks for \<open>npx\<close> and \<open>nuxi\<close> before it. The command line
  \<open>nuxi dev -C /srv/proj\<close> contains the flag and its argument, and no pattern matches it.
\<close>

theorem flag_without_npx_counterexample:
  "js_includes ''nuxi dev -C /srv/proj'' ''-C /srv/proj''
   \<and> cwd_from_command ''nuxi dev -C /srv/proj'' = None"
  by code_simp

text \<open>
  Claim C6, amended. For every command line that starts with \<open>npx nuxi\<close> and goes on,
  after text without a line break and without another \<open>-C\<close>, with \<open> -C /srv/proj\<close> or
  \<open> -C /srv/proj/\<close> followed by white space or by the end of the line, and that neither of
  the two patterns before the third matches, the directory inferred from the command line
  is \<open>/srv/proj\<close>, without trailing slash.
\<close>

theorem cwd_of_npx_nuxi_flag:
  assumes "c = ''npx nuxi'' @ mid @ '' -C /srv/proj'' @ sl @ post"
    and "sl = [] \<or> sl = ''/''"
    and "post = [] \<or> is_space (hd post)"
    and "\<not> js_includes mid ''-C''"
    and "\<forall>ch \<in> set mid. ch \<noteq> LF \<and> ch \<noteq> CR"
    and "re_match c (nuxtPatterns ! 0) = None"
    and "re_match c (nuxtPatterns ! 1) = None"
  shows "cwd_from_command c = Some ''/srv/proj''"
proof -
  have m: "re_match c (nuxtPatterns ! 2) = Some (''/srv/proj'' @ sl)"
    unfolding assms(1) by (rule re_match_nuxi[OF assms(2-5)])
  have "cwd_from_command c
          = first_pattern [nuxtPatterns ! 0, nuxtPatterns ! 1, nuxtPatterns ! 2, nuxtPatterns ! 3] c"
    unfolding cwd_from_command_def by (subst nuxtPatterns_list) (rule refl)
  also have "\<dots> = Some ''/srv/proj''"
    using assms(6,7) m strip_slash[OF assms(2)] by simp
  finally show ?thesis .
qed

theorem cwd_of_npx_nuxi_flag_witness:
  "cwd_from_command ''npx nuxi dev -C /srv/proj/ --port 3001'' = Some ''/srv/proj''
   \<and> cwd_from_command ''npx nuxi dev -C /srv/proj'' = Some ''/srv/proj''"
proof -
  have a: "re_match ''npx nuxi dev -C /srv/proj/ --port 3001'' (nuxtPatterns ! 0) = None"
    by code_simp
  have b: "re_match ''npx nuxi dev -C /srv/proj/ --port 3001'' (nuxtPatterns ! 1) = None"
    by code_simp
  have a': "re_match ''npx nuxi dev -C /srv/proj'' (nuxtPatterns ! 0) = None"
    by code_simp
  have b': "re_match ''npx nuxi dev -C /srv/proj'' (nuxtPatterns ! 1) = None"
    by code_simp
  have c: "\<not> js_includes '' dev'' ''-C''" by code_simp
  have d: "\<forall>ch \<in> set '' dev''. ch \<noteq> LF \<and> ch \<noteq> CR" by code_simp
  have e: "'' --port 3001'' = [] \<or> is_space (hd '' --port 3001'')" by code_simp
  have 1: "cwd_from_command ''npx nuxi dev -C /srv/proj/ --port 3001'' = Some ''/srv/proj''"
    using cwd_of_npx_nuxi_flag[of "''npx nuxi dev -C /srv/proj/ --port 3001''" "'' dev''"
        "''/''" "'' --port 3001''", OF _ _ e c d a b]
    by simp
  have 2: "cwd_from_command ''npx nuxi dev -C /srv/proj'' = Some ''/srv/proj''"
    using cwd_of_npx_nuxi_flag[of "''npx nuxi dev -C /srv/proj''" "'' dev''" "[]" "[]",
        OF _ _ _ c d a' b']
    by simp
  from 1 2 show ?thesis by (intro conjI)
qed

text \<open>
  Claim C9. \<open>getProjectInfo\<close> returns a result on every input; it never throws. Each step
  fails on its own. When no pattern matches and \<open>lsof\<close> fails, the result is the empty
  object. When a directory is found, the result has it, and has the memory and the CPU
  that the sampling gives; a manifest that cannot be read or parsed leaves \<open>projectInfo\<close>
  absent, a version-control configuration that cannot be read leaves the manifest's data
  as they are, and a failing \<open>ps\<close> leaves memory and CPU absent.
\<close>

theorem getProjectInfo_never_raises:
  "\<exists>d. getProjectInfo env p c = Inr d
     \<and> (cwd_from_command c = None \<and> execSync env (lsof_command p) = Inl e \<longrightarrow> d = no_details)
     \<and> (\<forall>dir. resolve_cwd env p c = Some dir \<and> dir \<noteq> [] \<longrightarrow>
           cwd d = Some dir
         \<and> (memory d, cpu d) = sample_usage env p
         \<and> (readFileSync env (path_join env [dir, ''package.json'']) = Inl e \<longrightarrow>
              projectInfo d = None)
         \<and> (\<forall>txt. readFileSync env (path_join env [dir, ''package.json'']) = Inr txt
                  \<and> json_parse env txt = Inl e \<longrightarrow> projectInfo d = None)
         \<and> (\<forall>info. read_package_json env dir = Some info
                  \<and> readFileSync env (path_join env [dir, ''.git'', ''config'']) = Inl e
                  \<longrightarrow> projectInfo d = Some info)
         \<and> (execSync env (ps_command p) = Inl e \<longrightarrow> memory d = None \<and> cpu d = None))"
proof (cases "\<exists>dir. resolve_cwd env p c = Some dir \<and> dir \<noteq> []")
  case True
  then obtain dir where r: "resolve_cwd env p c = Some dir" "dir \<noteq> []" by blast
  let ?d = "\<lparr>cwd = Some dir,
          projectInfo = map_option (git_repository env dir) (read_package_json env dir),
          memory = fst (sample_usage env p), cpu = snd (sample_usage env p)\<rparr>"
  have g: "getProjectInfo env p c = Inr ?d" by (rule getProjectInfo_found[OF r])
  have w: "cwd_from_command c = None \<and> execSync env (lsof_command p) = Inl e \<longrightarrow> ?d = no_details"
    using r by (auto simp: resolve_cwd_def lsof_fails)
  show ?thesis
    by (rule exI[of _ ?d]) (use g w r in \<open>auto simp: read_fails parse_fails git_fails ps_fails\<close>)
next
  case False
  then have g: "getProjectInfo env p c = Inr no_details"
    by (auto simp: getProjectInfo_def getProjectInfo_try_def split: option.splits)
  show ?thesis
    by (rule exI[of _ no_details]) (use g False in auto)
qed

text \<open>The witness: a system on which everything fails, with a command line that no pattern
  matches and with one that gives the directory; a system whose manifest is not JSON; and
  a system whose manifest is read and whose version-control configuration is not.\<close>

theorem getProjectInfo_never_raises_witness:
  "(cwd_from_command ''node server.js'' = None
      \<and> execSync failing_os (lsof_command ''1234'') = Inl SystemError
      \<and> getProjectInfo failing_os ''1234'' ''node server.js'' = Inr no_details)
   \<and> (resolve_cwd failing_os ''1234'' nuxt_dev = Some ''/home/u/app''
      \<and> readFileSync failing_os (path_join failing_os [''/home/u/app'', ''package.json''])
           = Inl SystemError
      \<and> execSync failing_os (ps_command ''1234'') = Inl SystemError
      \<and> (\<exists>d. getProjectInfo failing_os ''1234'' nuxt_dev = Inr d \<and> cwd d = Some ''/home/u/app''
             \<and> projectInfo d = None \<and> memory d = None \<and> cpu d = None))
   \<and> (readFileSync broken_manifest_os
          (path_join broken_manifest_os [''/home/u/app'', ''package.json'']) = Inr ''{''
      \<and> json_parse broken_manifest_os ''{'' = Inl SyntaxError
      \<and> (\<exists>d. getProjectInfo broken_manifest_os ''1234'' nuxt_dev = Inr d
             \<and> cwd d = Some ''/home/u/app'' \<and> projectInfo d = None))
   \<and> (read_package_json manifest_os ''/home/u/app''
          = Some \<lparr>name = JStr ''x'', version = JStr ''1.2.3'', repository = JUndefined\<rparr>
      \<and> readFileSync manifest_os (path_join manifest_os [''/home/u/app'', ''.git'', ''config''])
           = Inl SystemError
      \<and> (\<exists>d. getProjectInfo manifest_os ''1234'' nuxt_dev = Inr d \<and> cwd d = Some ''/home/u/app''
             \<and> projectInfo d
                 = Some \<lparr>name = JStr ''x'', version = JStr ''1.2.3'', repository = JUndefined\<rparr>))"
proof -
  have a1: "cwd_from_command ''node server.js'' = None" by code_simp
  have a2: "execSync failing_os (lsof_command ''1234'') = Inl SystemError" by code_simp
  have a: "getProjectInfo failing_os ''1234'' ''node server.js'' = Inr no_details"
    using getProjectInfo_never_raises[of failing_os "''1234''" "''node server.js''" SystemError]
      a1 a2
    by auto
  have b1: "resolve_cwd failing_os ''1234'' nuxt_dev = Some ''/home/u/app''" by code_simp
  have b2: "readFileSync failing_os (path_join failing_os [''/home/u/app'', ''package.json''])
              = Inl SystemError"
    by code_simp
  have b3: "execSync failing_os (ps_command ''1234'') = Inl SystemError" by code_simp
  have b: "\<exists>d. getProjectInfo failing_os ''1234'' nuxt_dev = Inr d \<and> cwd d = Some ''/home/u/app''
             \<and> projectInfo d = None \<and> memory d = None \<and> cpu d = None"
    using getProjectInfo_never_raises[of failing_os "''1234''" nuxt_dev SystemError] b1 b2 b3
    by auto
  have c0: "resolve_cwd broken_manifest_os ''1234'' nuxt_dev = Some ''/home/u/app''"
    by code_simp
  have c1: "readFileSync broken_manifest_os
              (path_join broken_manifest_os [''/home/u/app'', ''package.json'']) = Inr ''{''"
    by code_simp
  have c2: "json_parse broken_manifest_os ''{'' = Inl SyntaxError" by code_simp
  have c: "\<exists>d. getProjectInfo broken_manifest_os ''1234'' nuxt_dev = Inr d
             \<and> cwd d = Some ''/home/u/app'' \<and> projectInfo d = None"
    using getProjectInfo_never_raises[of broken_manifest_os "''1234''" nuxt_dev SyntaxError]
      c0 c1 c2
    by auto
  have d0: "resolve_cwd manifest_os ''1234'' nuxt_dev = Some ''/home/u/app''" by code_simp
  have d1: "read_package_json manifest_os ''/home/u/app''
          = Some \<lparr>name = JStr ''x'', version = JStr ''1.2.3'', repository = JUndefined\<rparr>"
    by code_simp
  have d2: "readFileSync manifest_os (path_join manifest_os [''/home/u/app'', ''.git'', ''config''])
              = Inl SystemError"
    by code_simp
  have d: "\<exists>d. getProjectInfo manifest_os ''1234'' nuxt_dev = Inr d \<and> cwd d = Some ''/home/u/app''
             \<and> projectInfo d
                 = Some \<lparr>name = JStr ''x'', version = JStr ''1.2.3'', repository = JUndefined\<rparr>"
    using getProjectInfo_never_raises[of manifest_os "''1234''" nuxt_dev SystemError] d0 d1 d2
    by auto
  from a1 a2 a b1 b2 b3 b c1 c2 c d1 d2 d show ?thesis by (intro conjI)
qed

text \<open>
  Claim C10. When the directory inference fails, that is, no pattern gives a directory and
  the fallback gives none, \<open>getProjectInfo\<close> returns the empty object: memory and CPU are
  absent, whatever \<open>ps\<close> would answer for the process, because the sampling comes after
  the return.
\<close>

theorem no_directory_no_usage:
  "falsy (cwd_from_command c) \<Longrightarrow> falsy (cwd_from_lsof env p) \<Longrightarrow>
   getProjectInfo env p c = Inr no_details \<and> memory no_details = None \<and> cpu no_details = None"
  by (cases "cwd_from_command c"; cases "cwd_from_lsof env p")
     (simp_all add: getProjectInfo_def getProjectInfo_try_def resolve_cwd_def Let_def
        no_details_def)

text \<open>The witness: \<open>ps\<close> answers for the process 1234, and the result has no memory and no
  CPU.\<close>

theorem no_directory_no_usage_witness:
  "falsy (cwd_from_command ''node server.js'') \<and> falsy (cwd_from_lsof sampling_os ''1234'')
   \<and> sample_usage sampling_os ''1234'' = (Some ''50 MB'', Some ''1.5%'')
   \<and> getProjectInfo sampling_os ''1234'' ''node server.js'' = Inr no_details
   \<and> memory no_details = None \<and> cpu no_details = None"
proof -
  have a: "falsy (cwd_from_command ''node server.js'')" by code_simp
  have b: "falsy (cwd_from_lsof sampling_os ''1234'')" by code_simp
  have c: "sample_usage sampling_os ''1234'' = (Some ''50 MB'', Some ''1.5%'')" by code_simp
  show ?thesis using no_directory_no_usage[OF a b] a b c by simp
qed

section \<open>Opening the repository\<close>




end
